theory Spec2Isabelle
  imports Main
begin

section \<open>Task creation with best-effort label enrichment\<close>

text \<open>
  A shallow embedding of the edge function
  \<^verbatim>\<open>supabase/functions/create-task-with-ai/index.ts\<close> and of the table it writes,
  \<^verbatim>\<open>supabase/migrations/1_init_tasks.sql\<close>.

  The function talks to three outside services: the identity service
  (\<^verbatim>\<open>auth.getUser\<close>), the relational store (\<^verbatim>\<open>from("tasks")\<close>) and the completion
  provider (\<^verbatim>\<open>openai.chat.completions.create\<close>). Their answers are inputs of the
  model, collected in the record \<open>world\<close>; what the store does with a row is
  modelled from the table definition. Every outside call and every console line is
  recorded, in order, in a list of events, so that "no store write was attempted" and
  "the provider was never called" are statements about that list.
\<close>

subsection \<open>Strings\<close>

text \<open>
  A JavaScript string is modelled as a HOL \<open>string\<close>, one \<open>char\<close> per code unit
  below 256 (the Latin-1 range). On that range \<^verbatim>\<open>toLowerCase\<close> maps A-Z and the
  accented capitals 0xC0-0xDE (but not the multiplication sign 0xD7) 32 places up, and
  \<^verbatim>\<open>trim\<close> removes tab, line feed, vertical tab, form feed, carriage return, space
  and no-break space from both ends.
\<close>

definition toLowerCase_char :: "char \<Rightarrow> char" where
  "toLowerCase_char c =
     (let n = (of_char c :: nat) in
      if (65 \<le> n \<and> n \<le> 90) \<or> (192 \<le> n \<and> n \<le> 222 \<and> n \<noteq> 215)
      then char_of (n + 32) else c)"

definition toLowerCase :: "string \<Rightarrow> string" where
  "toLowerCase s = map toLowerCase_char s"

definition is_space :: "char \<Rightarrow> bool" where
  "is_space c = ((of_char c :: nat) \<in> {9, 10, 11, 12, 13, 32, 160})"

definition trim :: "string \<Rightarrow> string" where
  "trim s = rev (dropWhile is_space (rev (dropWhile is_space s)))"

text \<open>\<^verbatim>\<open>s.includes(p)\<close>: \<open>p\<close> occurs in \<open>s\<close> as a contiguous run.\<close>

fun includes_str :: "string \<Rightarrow> string \<Rightarrow> bool" where
  "includes_str [] p = (p = [])"
| "includes_str (c # cs) p = (take (length p) (c # cs) = p \<or> includes_str cs p)"

text \<open>
  JavaScript truthiness of a value that is a string or null/undefined:
  \<^verbatim>\<open>!authHeader\<close>, \<^verbatim>\<open>OPENAI_API_KEY && ...\<close>, \<^verbatim>\<open>if (label)\<close>.
\<close>

definition truthy :: "string option \<Rightarrow> bool" where
  "truthy v = (v \<noteq> None \<and> v \<noteq> Some [])"

subsection \<open>The tasks table\<close>

type_synonym uuid = string
type_synonym timestamp = nat

text \<open>
  One row of \<^verbatim>\<open>public.tasks\<close>. Only \<open>task_id\<close> (primary key) and \<open>title\<close>
  (\<^verbatim>\<open>not null\<close>) cannot be null; every other column is nullable.
\<close>

record task =
  task_id :: uuid
  user_id :: "uuid option"
  title :: string
  description :: "string option"
  image_url :: "string option"
  label :: "string option"
  due_date :: "timestamp option"
  completed :: "bool option"
  created_at :: "timestamp option"
  updated_at :: "timestamp option"

text \<open>The table: \<open>task_id\<close> is the primary key, so it is a map from \<open>task_id\<close> to row.\<close>

type_synonym tasks = "uuid \<rightharpoonup> task"

text \<open>
  A property read off the parsed request body: missing (\<^verbatim>\<open>undefined\<close>), \<^verbatim>\<open>null\<close> or
  a string, which is the type the request boundary gives \<open>title\<close> and \<open>description\<close>.
\<close>

datatype jsval = Undefined | Null | Str string

text \<open>What a template literal \<^verbatim>\<open>${v}\<close> prints.\<close>

fun template :: "jsval \<Rightarrow> string" where
  "template Undefined = ''undefined''"
| "template Null = ''null''"
| "template (Str s) = s"

text \<open>The column an inserted property ends in: a missing or null property is SQL NULL.\<close>

fun column :: "jsval \<Rightarrow> string option" where
  "column (Str s) = Some s"
| "column Undefined = None"
| "column Null = None"

text \<open>
  Whatever the handler throws to its outer \<^verbatim>\<open>catch\<close>: the rejection of
  \<^verbatim>\<open>req.json()\<close>, the \<^verbatim>\<open>TypeError\<close> of destructuring \<^verbatim>\<open>null\<close>, its own
  \<^verbatim>\<open>new Error(...)\<close>, or the error object of a store call (code and message).
\<close>

datatype exn =
    SyntaxError string
  | TypeError string
  | Error string
  | PostgrestError string string

fun message :: "exn \<Rightarrow> string" where
  "message (SyntaxError m) = m"
| "message (TypeError m) = m"
| "message (Error m) = m"
| "message (PostgrestError c m) = m"

definition validLabels :: "string list" where
  "validLabels = [''work'', ''personal'', ''priority'', ''shopping'', ''home'']"

text \<open>The user object of the identity service; the handler reads \<^verbatim>\<open>user.id\<close> only.\<close>

datatype user = User (uid: uuid)

text \<open>
  What the inner \<^verbatim>\<open>try\<close> throws, an \<^verbatim>\<open>Error\<close> object of the provider's client or
  of the runtime, with the properties the inner \<^verbatim>\<open>catch\<close> reads: its status, its
  message (a string), its code, and the text \<^verbatim>\<open>JSON.stringify\<close> gives for it.
\<close>

record api_error =
  err_status :: "nat option"
  err_message :: string
  err_code :: "string option"
  err_json :: string

text \<open>One element of \<^verbatim>\<open>completion.choices\<close>: its \<^verbatim>\<open>message.content\<close>, which may be null.\<close>

datatype choice = Choice (content: "string option")

text \<open>
  The answers of the outside services during one request.
  \<^item> \<open>getUser\<close>: the user the identity service returns for an \<^verbatim>\<open>Authorization\<close>
    header, \<open>None\<close> when \<^verbatim>\<open>data.user\<close> is null;
  \<^item> \<open>insert_fault\<close>, \<open>update_fault\<close>: an error of the store that the table
    definition does not decide (store unreachable, foreign key, row-level security);
  \<^item> \<open>gen_random_uuid\<close>: the key the store draws for an inserted row;
  \<^item> \<open>now\<close>: the store's clock, the default of both timestamp columns;
  \<^item> \<open>chat_completions_create\<close>: the provider's answer to a prompt, a thrown error
    or the list \<^verbatim>\<open>completion.choices\<close>.
\<close>

record world =
  getUser :: "string \<Rightarrow> user option"
  insert_fault :: "exn option"
  update_fault :: "exn option"
  gen_random_uuid :: uuid
  now :: timestamp
  chat_completions_create :: "string \<Rightarrow> api_error + choice list"

text \<open>The object passed to \<^verbatim>\<open>.insert({title, description, completed: false, user_id})\<close>.\<close>

record new_task =
  new_title :: jsval
  new_description :: jsval
  new_completed :: bool
  new_user_id :: uuid

text \<open>
  \<^verbatim>\<open>.from("tasks").insert(p).select().single()\<close>, as \<^verbatim>\<open>{data, error}\<close>. The row gets
  the columns of \<open>p\<close> and the defaults of the table for the rest: a fresh \<open>task_id\<close>,
  both timestamps \<open>now\<close>, everything else null. \<^verbatim>\<open>title text not null\<close> rejects a
  missing or null title (SQLSTATE 23502) and accepts every string; the primary key
  rejects a \<open>task_id\<close> already present (23505).
\<close>

definition insert_tasks :: "world \<Rightarrow> tasks \<Rightarrow> new_task \<Rightarrow> exn + task \<times> tasks" where
  "insert_tasks w db p =
     (case insert_fault w of
        Some e \<Rightarrow> Inl e
      | None \<Rightarrow>
         (case new_title p of
            Str t \<Rightarrow>
              (if db (gen_random_uuid w) \<noteq> None
               then Inl (PostgrestError ''23505'' ''duplicate key violates unique constraint tasks_pkey'')
               else
                 let row = \<lparr> task_id = gen_random_uuid w,
                             user_id = Some (new_user_id p),
                             title = t,
                             description = column (new_description p),
                             image_url = None,
                             label = None,
                             due_date = None,
                             completed = Some (new_completed p),
                             created_at = Some (now w),
                             updated_at = Some (now w) \<rparr>
                 in Inr (row, db(gen_random_uuid w \<mapsto> row)))
          | Undefined \<Rightarrow> Inl (PostgrestError ''23502'' ''null in column title violates not-null constraint'')
          | Null \<Rightarrow> Inl (PostgrestError ''23502'' ''null in column title violates not-null constraint'')))"

text \<open>
  \<^verbatim>\<open>.from("tasks").update({ label }).eq("task_id", k).select().single()\<close> (lines
  90-96), the label update of the store. The statement sets the \<open>label\<close> column of the row with that
  key and nothing else: \<open>updated_at\<close> has a default for the insert only, and the
  update sends no value for it. \<^verbatim>\<open>.single()\<close> is an error when no row matches
  (PGRST116); the check constraint rejects a label outside the five (23514).
\<close>

definition updateLabel :: "world \<Rightarrow> tasks \<Rightarrow> uuid \<Rightarrow> string \<Rightarrow> exn + task \<times> tasks" where
  "updateLabel w db k l =
     (case update_fault w of
        Some e \<Rightarrow> Inl e
      | None \<Rightarrow>
         (case db k of
            None \<Rightarrow> Inl (PostgrestError ''PGRST116'' ''JSON object requested, multiple (or no) rows returned'')
          | Some row \<Rightarrow>
              if l \<notin> set validLabels
              then Inl (PostgrestError ''23514'' ''new row violates check constraint tasks_label_check'')
              else Inr (row\<lparr>label := Some l\<rparr>, db(k \<mapsto> row\<lparr>label := Some l\<rparr>))))"

subsection \<open>The handler\<close>

text \<open>
  The module constants read from the environment: \<^verbatim>\<open>OPENAI_API_KEY\<close> and the text of
  the variable \<^verbatim>\<open>ENABLE_OPENAI\<close>, the switch that is off exactly when that text is
  \<^verbatim>\<open>"false"\<close>.
\<close>

record env =
  OPENAI_API_KEY :: "string option"
  ENABLE_OPENAI_var :: "string option"

definition ENABLE_OPENAI :: "env \<Rightarrow> bool" where
  "ENABLE_OPENAI e = (ENABLE_OPENAI_var e \<noteq> Some ''false'')"

text \<open>
  What \<^verbatim>\<open>const { title, description } = await req.json()\<close> yields: the promise
  rejects (the body is not JSON), the body is the JSON \<^verbatim>\<open>null\<close> (destructuring
  throws), or the two properties are read (both \<open>Undefined\<close> when the body is a JSON
  number, string, boolean or array).
\<close>

datatype body_json = Malformed string | JNull | JFields jsval jsval

record request =
  req_method :: string
  Authorization :: "string option"
  req_json :: body_json

text \<open>
  The events of a run, in order: a line on the console (\<^verbatim>\<open>console.log\<close>,
  \<^verbatim>\<open>console.warn\<close>, \<^verbatim>\<open>console.error\<close>) or a call to an outside service with what
  it was given. The store writes are the inserts and the updates.
\<close>

datatype level = Log | Warn | Err

datatype event =
    Console level
  | GetUser string
  | Insert new_task
  | ChatCompletion string
  | Update uuid string


fun is_insert :: "event \<Rightarrow> bool" where
  "is_insert (Insert p) = True"
| "is_insert (Update k l) = False"
| "is_insert (Console v) = False"
| "is_insert (GetUser a) = False"
| "is_insert (ChatCompletion p) = False"


fun is_completion :: "event \<Rightarrow> bool" where
  "is_completion (ChatCompletion p) = True"
| "is_completion (Insert p) = False"
| "is_completion (Update k l) = False"
| "is_completion (Console v) = False"
| "is_completion (GetUser a) = False"

text \<open>
  The answer: its status and its body, which is empty, \<^verbatim>\<open>JSON.stringify\<close> of a row,
  or \<^verbatim>\<open>{ error: message }\<close>. The headers play no part in what follows.
\<close>

datatype payload = NoContent | TaskJson task | ErrorJson string

record response =
  status :: nat
  body :: payload

definition prompt :: \<open>jsval \<Rightarrow> jsval \<Rightarrow> string\<close> where
  \<open>prompt t d =
     ''Based on this task title: "'' @ template t @ ''" and description: "'' @
     template d @
     ''", suggest ONE of these labels: work, personal, priority, shopping, home. Reply with just the label word and nothing else.''\<close>

text \<open>
  Lines 79-87: the content of the first choice, lower-cased and trimmed as a whole
  (\<^verbatim>\<open>undefined\<close> when the content is null), kept when it is one of \<open>validLabels\<close>.
\<close>

definition suggestedLabel :: "choice \<Rightarrow> string option" where
  "suggestedLabel c = map_option (\<lambda>s. trim (toLowerCase s)) (content c)"

definition suggest :: "choice \<Rightarrow> string option" where
  "suggest c =
     (case suggestedLabel c of
        None \<Rightarrow> None
      | Some l \<Rightarrow> if l \<in> set validLabels then Some l else None)"

text \<open>
  The inner \<^verbatim>\<open>catch\<close> (lines 110-140): it writes the error to the console, sorts
  quota errors from the others for the second line, and does not rethrow.
\<close>

definition errorMessage :: "api_error \<Rightarrow> string" where
  "errorMessage err = (if err_message err \<noteq> [] then err_message err else err_json err)"

definition isQuotaError :: "api_error \<Rightarrow> bool" where
  "isQuotaError err =
     (err_status err = Some 429 \<or>
      includes_str (toLowerCase (errorMessage err)) ''quota'' \<or>
      includes_str (toLowerCase (errorMessage err)) ''429'' \<or>
      err_code err = Some ''rate_limit_exceeded'')"

definition catch_openaiError :: "api_error \<Rightarrow> event list" where
  "catch_openaiError err = [Console Err, Console (if isQuotaError err then Warn else Err)]"

text \<open>
  \<^verbatim>\<open>completion.choices[0].message\<close> on an empty list of choices: the \<^verbatim>\<open>TypeError\<close>
  lands in the inner \<^verbatim>\<open>catch\<close> like a provider error.
\<close>

definition no_choice :: api_error where
  "no_choice = \<lparr> err_status = None,
                 err_message = ''Cannot read properties of undefined'',
                 err_code = None,
                 err_json = ''{}'' \<rparr>"

text \<open>
  Lines 61-149, after the insert returned the row \<open>data\<close>: the task the handler
  answers with, the table, and the events.
\<close>

definition enrich ::
  "env \<Rightarrow> world \<Rightarrow> jsval \<Rightarrow> jsval \<Rightarrow> task \<Rightarrow> tasks \<Rightarrow> task \<times> tasks \<times> event list" where
  "enrich e w t d data db =
     (if truthy (OPENAI_API_KEY e) \<and> ENABLE_OPENAI e then
        (case chat_completions_create w (prompt t d) of
           Inl openaiError \<Rightarrow>
             (data, db, ChatCompletion (prompt t d) # catch_openaiError openaiError)
         | Inr [] \<Rightarrow>
             (data, db, ChatCompletion (prompt t d) # catch_openaiError no_choice)
         | Inr (c # cs) \<Rightarrow>
             (case suggest c of
                None \<Rightarrow> (data, db, [ChatCompletion (prompt t d), Console Log])
              | Some l \<Rightarrow>
                  if \<not> truthy (Some l)
                  then (data, db, [ChatCompletion (prompt t d), Console Log])
                  else
                    (case updateLabel w db (task_id data) l of
                       Inl updateError \<Rightarrow>
                         (data, db,
                          [ChatCompletion (prompt t d), Console Log,
                           Update (task_id data) l, Console Err])
                     | Inr (updatedTask, db') \<Rightarrow>
                         (updatedTask, db',
                          [ChatCompletion (prompt t d), Console Log,
                           Update (task_id data) l]))))
      else (data, db, []))"

text \<open>The body of the outer \<^verbatim>\<open>try\<close> (lines 26-149): a thrown error or the returned task.\<close>

definition try_block ::
  "env \<Rightarrow> world \<Rightarrow> request \<Rightarrow> tasks \<Rightarrow> (exn + task) \<times> tasks \<times> event list" where
  "try_block e w req db =
     (case req_json req of
        Malformed m \<Rightarrow> (Inl (SyntaxError m), db, [])
      | JNull \<Rightarrow> (Inl (TypeError ''Cannot destructure property title of null''), db, [])
      | JFields t d \<Rightarrow>
          if \<not> truthy (Authorization req)
          then (Inl (Error ''No authorization header''), db, [Console Log])
          else
            (case getUser w (the (Authorization req)) of
               None \<Rightarrow>
                 (Inl (Error ''No user found''), db,
                  [Console Log, GetUser (the (Authorization req))])
             | Some user \<Rightarrow>
                 (case insert_tasks w db
                         \<lparr> new_title = t, new_description = d,
                           new_completed = False, new_user_id = uid user \<rparr> of
                    Inl error \<Rightarrow>
                      (Inl error, db,
                       [Console Log, GetUser (the (Authorization req)),
                        Insert \<lparr> new_title = t, new_description = d,
                                 new_completed = False, new_user_id = uid user \<rparr>])
                  | Inr (data, db1) \<Rightarrow>
                      (case enrich e w t d data db1 of
                         (task, db2, evs) \<Rightarrow>
                           (Inr task, db2,
                            [Console Log, GetUser (the (Authorization req)),
                             Insert \<lparr> new_title = t, new_description = d,
                                      new_completed = False, new_user_id = uid user \<rparr>]
                            @ evs)))))"

text \<open>
  \<^verbatim>\<open>Deno.serve(async (req) => ...)\<close>: the preflight answer, the task as JSON with
  the default status 200, or the outer \<^verbatim>\<open>catch\<close> with its one status 400.
\<close>

definition handler ::
  "env \<Rightarrow> world \<Rightarrow> request \<Rightarrow> tasks \<Rightarrow> response \<times> tasks \<times> event list" where
  "handler e w req db =
     (if req_method req = ''OPTIONS''
      then (\<lparr> status = 204, body = NoContent \<rparr>, db, [])
      else
        (case try_block e w req db of
           (Inr task, db', evs) \<Rightarrow> (\<lparr> status = 200, body = TaskJson task \<rparr>, db', evs)
         | (Inl error, db', evs) \<Rightarrow>
             (\<lparr> status = 400, body = ErrorJson (message error) \<rparr>, db', evs @ [Console Err])))"

subsection \<open>The first line of a completion\<close>

text \<open>
  The handler has no such step; the two functions below only name the part of a
  completion before its first line feed and the part from that line feed on, so that
  statements about "the first line" can be compared with what \<open>suggest\<close> computes.
\<close>

definition first_line :: "string \<Rightarrow> string" where
  "first_line s = takeWhile (\<lambda>c. c \<noteq> CHR 0x0A) s"

definition further_lines :: "string \<Rightarrow> string" where
  "further_lines s = dropWhile (\<lambda>c. c \<noteq> CHR 0x0A) s"

subsection \<open>Sample requests and services\<close>

definition env_on :: env where
  "env_on = \<lparr> OPENAI_API_KEY = Some ''sk-test'', ENABLE_OPENAI_var = None \<rparr>"

definition env_off :: env where
  "env_off = \<lparr> OPENAI_API_KEY = Some ''sk-test'', ENABLE_OPENAI_var = Some ''false'' \<rparr>"

text \<open>
  A world in which the identity service accepts one header, the store has no fault
  and the provider answers \<^verbatim>\<open>"Work "\<close>.
\<close>

definition world_ok :: world where
  "world_ok =
     \<lparr> getUser = (\<lambda>a. if a = ''Bearer token-1'' then Some (User ''user-1'') else None),
       insert_fault = None,
       update_fault = None,
       gen_random_uuid = ''task-1'',
       now = 100,
       chat_completions_create = (\<lambda>p. Inr [Choice (Some ''Work '')]) \<rparr>"

definition quota_error :: api_error where
  "quota_error = \<lparr> err_status = Some 429,
                   err_message = ''You exceeded your current quota'',
                   err_code = Some ''insufficient_quota'',
                   err_json = ''{}'' \<rparr>"

definition post :: "string option \<Rightarrow> body_json \<Rightarrow> request" where
  "post a b = \<lparr> req_method = ''POST'', Authorization = a, req_json = b \<rparr>"

definition buy_milk :: body_json where
  "buy_milk = JFields (Str ''Buy milk'') Undefined"

text \<open>The row the store builds for \<open>buy_milk\<close> in \<open>world_ok\<close>.\<close>

definition milk_row :: task where
  "milk_row = \<lparr> task_id = ''task-1'', user_id = Some ''user-1'', title = ''Buy milk'',
                description = None, image_url = None, label = None, due_date = None,
                completed = Some False, created_at = Some 100, updated_at = Some 100 \<rparr>"

section \<open>Facts about the store and the suggestion\<close>


lemma suggest_Some_iff:
  "suggest c = Some l \<longleftrightarrow>
     (\<exists>raw. content c = Some raw \<and> trim (toLowerCase raw) = l \<and> l \<in> set validLabels)"
  by (cases c) (auto simp: suggest_def suggestedLabel_def split: option.splits)


text \<open>An accepted insert adds the returned row under a key that was free.\<close>

lemma insert_tasks_Inr:
  assumes "insert_tasks w db p = Inr (data, db1)"
  shows "db1 = db(task_id data \<mapsto> data) \<and> db (task_id data) = None \<and>
         task_id data = gen_random_uuid w \<and>
         user_id data = Some (new_user_id p) \<and> completed data = Some (new_completed p) \<and>
         label data = None \<and> new_title p = Str (title data)"
  using assms
  by (auto simp: insert_tasks_def Let_def split: option.splits jsval.splits if_splits)

text \<open>An accepted update changes the label column of the one row, and nothing else.\<close>

lemma updateLabel_Inr:
  assumes "updateLabel w db k l = Inr (row', db')"
  shows "\<exists>row. db k = Some row \<and> row' = row\<lparr>label := Some l\<rparr> \<and> db' = db(k \<mapsto> row') \<and>
           l \<in> set validLabels"
  using assms
  by (auto simp: updateLabel_def split: option.splits if_splits)

text \<open>
  The enrichment either hands back the created row and the table untouched, or every
  step of it went through and it hands back what the update returned.
\<close>

lemma enrich_task:
  "fst (enrich e w t d data db) = data \<and> fst (snd (enrich e w t d data db)) = db \<or>
   (\<exists>c cs l. truthy (OPENAI_API_KEY e) \<and> ENABLE_OPENAI e \<and>
      chat_completions_create w (prompt t d) = Inr (c # cs) \<and> suggest c = Some l \<and>
      updateLabel w db (task_id data) l =
        Inr (fst (enrich e w t d data db), fst (snd (enrich e w t d data db))))"
  by (auto simp: enrich_def split: sum.splits list.splits option.splits prod.splits)

lemma enrich_failed:
  assumes "\<not> truthy (OPENAI_API_KEY e) \<or> \<not> ENABLE_OPENAI e \<or>
           (\<exists>err. chat_completions_create w (prompt t d) = Inl err) \<or>
           chat_completions_create w (prompt t d) = Inr [] \<or>
           (\<exists>c cs. chat_completions_create w (prompt t d) = Inr (c # cs) \<and>
              (suggest c = None \<or>
               (\<exists>l err. suggest c = Some l \<and> updateLabel w db (task_id data) l = Inl err)))"
  shows "fst (enrich e w t d data db) = data \<and> fst (snd (enrich e w t d data db)) = db"
  using assms by (auto simp: enrich_def split: sum.splits list.splits option.splits)

text \<open>
  A request that is not a preflight, whose body was read, whose header the identity
  service accepts and whose insert the store accepts is answered with status 200 and
  what the enrichment hands back.
\<close>

lemma handler_created:
  assumes "req_method req \<noteq> ''OPTIONS''"
    and "req_json req = JFields t d"
    and "truthy (Authorization req)"
    and "getUser w (the (Authorization req)) = Some u"
    and "insert_tasks w db \<lparr> new_title = t, new_description = d, new_completed = False,
                              new_user_id = uid u \<rparr> = Inr (data, db1)"
  shows "handler e w req db =
           (\<lparr> status = 200, body = TaskJson (fst (enrich e w t d data db1)) \<rparr>,
            fst (snd (enrich e w t d data db1)),
            [Console Log, GetUser (the (Authorization req)),
             Insert \<lparr> new_title = t, new_description = d, new_completed = False,
                      new_user_id = uid u \<rparr>] @ snd (snd (enrich e w t d data db1)))"
  using assms by (simp add: handler_def try_block_def split: prod.splits)

lemma insert_milk:
  "insert_tasks (world_ok\<lparr>chat_completions_create := c\<rparr>) Map.empty
     \<lparr> new_title = Str ''Buy milk'', new_description = Undefined, new_completed = False,
       new_user_id = ''user-1'' \<rparr> = Inr (milk_row, [''task-1'' \<mapsto> milk_row])"
  by (simp add: insert_tasks_def world_ok_def milk_row_def Let_def)

lemma enrich_no_insert: "filter is_insert (snd (snd (enrich e w t d data db))) = []"
  by (auto simp: enrich_def catch_openaiError_def
           split: sum.splits list.splits option.splits prod.splits)

text \<open>
  After an accepted insert of a row without label, the enrichment leaves the table
  with that one row added, its label set or not.
\<close>

lemma enrich_table:
  assumes "db (task_id data) = None" and "label data = None"
  shows "\<exists>l. fst (snd (enrich e w t d data (db(task_id data \<mapsto> data)))) =
             db(task_id data \<mapsto> data\<lparr>label := l\<rparr>)"
proof -
  let ?db1 = "db(task_id data \<mapsto> data)"
  from enrich_task [of e w t d data ?db1]
  consider "fst (snd (enrich e w t d data ?db1)) = ?db1"
    | l where "updateLabel w ?db1 (task_id data) l =
        Inr (fst (enrich e w t d data ?db1), fst (snd (enrich e w t d data ?db1)))"
    by blast
  then show ?thesis
  proof cases
    case 1
    have "data\<lparr>label := None\<rparr> = data" using assms(2) by simp
    with 1 show ?thesis by metis
  next
    case (2 l)
    from updateLabel_Inr [OF 2]
    have "fst (snd (enrich e w t d data ?db1)) = db(task_id data \<mapsto> data\<lparr>label := Some l\<rparr>)"
      by auto
    then show ?thesis by blast
  qed
qed

lemma enrich_off:
  assumes "\<not> ENABLE_OPENAI e"
  shows "enrich e w t d data db = (data, db, [])"
  using assms by (simp add: enrich_def)





lemma insert_tasks_no_title:
  assumes "t = Undefined \<or> t = Null"
  shows "insert_tasks w db \<lparr> new_title = t, new_description = d, new_completed = c,
                            new_user_id = k \<rparr> =
           (case insert_fault w of
              Some err \<Rightarrow> Inl err
            | None \<Rightarrow> Inl (PostgrestError ''23502''
                             ''null in column title violates not-null constraint''))"
  using assms by (auto simp: insert_tasks_def split: option.splits)

text \<open>The label update never touches \<open>updated_at\<close>, and repeating it changes nothing.\<close>

lemma updateLabel_updated_at:
  assumes "updateLabel w db k l = Inr (row', db')"
  shows "map_option updated_at (db k) = Some (updated_at row')"
  using updateLabel_Inr [OF assms] by auto

lemma updateLabel_idempotent:
  assumes "updateLabel w db k l = Inr (row', db')"
  shows "updateLabel w db' k l = Inr (row', db')"
  using assms
  by (auto simp: updateLabel_def split: option.splits if_splits)

text \<open>Every answer of the handler carries one of three statuses.\<close>

lemma handler_status: "status (fst (handler e w req db)) \<in> {200, 204, 400}"
  by (auto simp: handler_def split: prod.splits sum.splits)

text \<open>Trimming ignores whitespace appended at the end, and lower-casing keeps whitespace.\<close>

lemma is_space_toLowerCase_char: "is_space (toLowerCase_char c) = is_space c"
  unfolding is_space_def toLowerCase_char_def Let_def by auto

lemma trim_append_spaces:
  assumes "\<forall>c \<in> set ys. is_space c"
  shows "trim (xs @ ys) = trim xs"
proof (cases "\<forall>c \<in> set xs. is_space c")
  case True
  have whole: "dropWhile is_space (xs @ ys) = []"
    unfolding dropWhile_eq_Nil_conv using True assms by auto
  have left: "dropWhile is_space xs = []"
    unfolding dropWhile_eq_Nil_conv using True by auto
  show ?thesis
    unfolding trim_def whole left by simp
next
  case False
  then obtain x where "x \<in> set xs" and "\<not> is_space x" by blast
  then have "dropWhile is_space (xs @ ys) = dropWhile is_space xs @ ys"
    by (rule dropWhile_append1)
  moreover have "dropWhile is_space (rev ys @ zs) = dropWhile is_space zs" for zs
    using assms by (intro dropWhile_append2) simp
  ultimately show ?thesis by (simp add: trim_def)
qed

lemma first_further: "first_line s @ further_lines s = s"
  by (simp add: first_line_def further_lines_def)

lemma normalise_first_line:
  assumes "\<forall>c \<in> set (further_lines raw). is_space c"
  shows "trim (toLowerCase raw) = trim (toLowerCase (first_line raw))"
proof -
  have "toLowerCase raw = toLowerCase (first_line raw) @ toLowerCase (further_lines raw)"
    by (metis first_further map_append toLowerCase_def)
  moreover have "\<forall>c \<in> set (toLowerCase (further_lines raw)). is_space c"
    using assms by (simp add: toLowerCase_def is_space_toLowerCase_char)
  ultimately show ?thesis by (simp add: trim_append_spaces)
qed




lemma suggest_two_lines: "suggest (Choice (Some (''work\<newline>home''))) = None"
  by code_simp

lemma first_line_blank_rest:
  "trim (toLowerCase (first_line (''Home\<newline> ''))) = ''home'' \<and>
   further_lines (''Home\<newline> '') = ''\<newline> ''"
  by code_simp

lemma run_milk_off:
  "handler env_off world_ok (post (Some ''Bearer token-1'') buy_milk) Map.empty =
     (\<lparr> status = 200, body = TaskJson milk_row \<rparr>, [''task-1'' \<mapsto> milk_row],
      [Console Log, GetUser ''Bearer token-1'',
       Insert \<lparr> new_title = Str ''Buy milk'', new_description = Undefined,
                new_completed = False, new_user_id = ''user-1'' \<rparr>])"
  by (simp add: handler_def try_block_def post_def buy_milk_def truthy_def world_ok_def
        insert_tasks_def Let_def enrich_def env_off_def ENABLE_OPENAI_def milk_row_def)

section \<open>The claims\<close>

text \<open>
  C1. Enrichment is best-effort. Once the store has accepted the insert, the request
  is answered with status 200 and a task, whatever the enrichment does. When the
  enrichment does not go through (no API key, the switch off, the completion call
  throwing, no choice in the completion, a suggestion that is not a valid label, or
  the label update returning an error), the answer is the row exactly as the insert
  returned it, with no label, and the table is as the insert left it.
\<close>

theorem enrichment_is_best_effort:
  assumes "req_method req \<noteq> ''OPTIONS''"
    and "req_json req = JFields t d"
    and "truthy (Authorization req)"
    and "getUser w (the (Authorization req)) = Some u"
    and "insert_tasks w db \<lparr> new_title = t, new_description = d, new_completed = False,
                              new_user_id = uid u \<rparr> = Inr (data, db1)"
  shows "status (fst (handler e w req db)) = 200 \<and>
         (\<exists>task. body (fst (handler e w req db)) = TaskJson task) \<and>
         (\<not> truthy (OPENAI_API_KEY e) \<or> \<not> ENABLE_OPENAI e \<or>
          (\<exists>err. chat_completions_create w (prompt t d) = Inl err) \<or>
          chat_completions_create w (prompt t d) = Inr [] \<or>
          (\<exists>c cs. chat_completions_create w (prompt t d) = Inr (c # cs) \<and>
             (suggest c = None \<or>
              (\<exists>l err. suggest c = Some l \<and> updateLabel w db1 (task_id data) l = Inl err)))
          \<longrightarrow> fst (handler e w req db) = \<lparr> status = 200, body = TaskJson data \<rparr> \<and>
              label data = None \<and>
              fst (snd (handler e w req db)) = db1)"
proof -
  note run = handler_created [OF assms, of e]
  have created: "label data = None"
    using insert_tasks_Inr [OF assms(5)] by simp
  show ?thesis
    using run created enrich_failed [of e w t d db1 data] by auto
qed

text \<open>The provider answers with a quota error: the task is returned as created.\<close>

theorem enrichment_is_best_effort_witness:
  "fst (handler env_on (world_ok\<lparr>chat_completions_create := (\<lambda>p. Inl quota_error)\<rparr>)
          (post (Some ''Bearer token-1'') buy_milk) Map.empty)
     = \<lparr> status = 200, body = TaskJson milk_row \<rparr> \<and>
   fst (snd (handler env_on (world_ok\<lparr>chat_completions_create := (\<lambda>p. Inl quota_error)\<rparr>)
          (post (Some ''Bearer token-1'') buy_milk) Map.empty)) ''task-1'' = Some milk_row"
  using enrichment_is_best_effort
    [of "post (Some ''Bearer token-1'') buy_milk" "Str ''Buy milk''" Undefined
        "world_ok\<lparr>chat_completions_create := (\<lambda>p. Inl quota_error)\<rparr>" "User ''user-1''"
        Map.empty milk_row "[''task-1'' \<mapsto> milk_row]" env_on]
  by (simp add: insert_milk post_def buy_milk_def truthy_def)
     (simp add: world_ok_def)

text \<open>
  C2 (as amended). A request that is not a preflight, whose body is JSON other than
  \<^verbatim>\<open>null\<close> (so that \<open>title\<close> and \<open>description\<close> are read off it) and whose
  credential is present and accepted, issues exactly one insert, with \<open>user_id\<close> the
  authenticated user's id, \<open>completed = false\<close> and no label. When the store accepts
  that insert, the key was free, the row carries that \<open>user_id\<close>, \<open>completed = false\<close>
  and no label at creation, and the table at the end is the old table plus that one
  row (with or without a label from the enrichment).
\<close>

theorem valid_request_inserts_one_row:
  assumes "req_method req \<noteq> ''OPTIONS''"
    and "req_json req = JFields t d"
    and "truthy (Authorization req)"
    and "getUser w (the (Authorization req)) = Some u"
  shows "filter is_insert (snd (snd (handler e w req db))) =
           [Insert \<lparr> new_title = t, new_description = d, new_completed = False,
                     new_user_id = uid u \<rparr>] \<and>
         (\<forall>data db1.
            insert_tasks w db \<lparr> new_title = t, new_description = d, new_completed = False,
                                 new_user_id = uid u \<rparr> = Inr (data, db1) \<longrightarrow>
            db (task_id data) = None \<and> db1 = db(task_id data \<mapsto> data) \<and>
            user_id data = Some (uid u) \<and> completed data = Some False \<and> label data = None \<and>
            (\<exists>l. fst (snd (handler e w req db)) = db(task_id data \<mapsto> data\<lparr>label := l\<rparr>)))"
proof -
  let ?p = "\<lparr> new_title = t, new_description = d, new_completed = False, new_user_id = uid u \<rparr>"
  have one: "filter is_insert (snd (snd (handler e w req db))) = [Insert ?p]"
  proof (cases "insert_tasks w db ?p")
    case (Inl err)
    with assms show ?thesis by (simp add: handler_def try_block_def)
  next
    case (Inr r)
    obtain data db1 where "r = (data, db1)" by (cases r)
    with Inr handler_created [OF assms, of db data db1 e] enrich_no_insert [of e w t d data db1]
    show ?thesis by simp
  qed
  have row: "db (task_id data) = None \<and> db1 = db(task_id data \<mapsto> data) \<and>
             user_id data = Some (uid u) \<and> completed data = Some False \<and> label data = None \<and>
             (\<exists>l. fst (snd (handler e w req db)) = db(task_id data \<mapsto> data\<lparr>label := l\<rparr>))"
    if ins: "insert_tasks w db ?p = Inr (data, db1)" for data db1
  proof -
    from insert_tasks_Inr [OF ins]
    have fresh: "db (task_id data) = None"
      and tab: "db1 = db(task_id data \<mapsto> data)"
      and own: "user_id data = Some (uid u)"
      and flag: "completed data = Some False"
      and lab: "label data = None"
      by auto
    from enrich_table [of db data e w t d] fresh lab handler_created [OF assms ins, of e] tab
    have "\<exists>l. fst (snd (handler e w req db)) = db(task_id data \<mapsto> data\<lparr>label := l\<rparr>)"
      by simp
    with fresh tab own flag lab show ?thesis by blast
  qed
  from one row show ?thesis by blast
qed

theorem valid_request_inserts_one_row_witness:
  "filter is_insert
     (snd (snd (handler env_off world_ok (post (Some ''Bearer token-1'') buy_milk) Map.empty))) =
     [Insert \<lparr> new_title = Str ''Buy milk'', new_description = Undefined,
               new_completed = False, new_user_id = ''user-1'' \<rparr>] \<and>
   user_id milk_row = Some ''user-1'' \<and> completed milk_row = Some False \<and>
   label milk_row = None \<and>
   (\<exists>l. fst (snd (handler env_off world_ok (post (Some ''Bearer token-1'') buy_milk) Map.empty))
          = [task_id milk_row \<mapsto> milk_row\<lparr>label := l\<rparr>])"
  using valid_request_inserts_one_row
    [of "post (Some ''Bearer token-1'') buy_milk" "Str ''Buy milk''" Undefined
        world_ok "User ''user-1''" env_off Map.empty]
    insert_milk [of "chat_completions_create world_ok"]
  by (simp add: post_def buy_milk_def truthy_def world_ok_def)

text \<open>
  C2 as stated fails: the credential is present and accepted, the body is \<^verbatim>\<open>{}\<close>,
  and the store rejects the row for its missing title; no row is inserted.
\<close>

theorem valid_request_without_title_counterexample:
  "truthy (Authorization (post (Some ''Bearer token-1'') (JFields Undefined Undefined))) \<and>
   getUser world_ok ''Bearer token-1'' = Some (User ''user-1'') \<and>
   status (fst (handler env_on world_ok
                  (post (Some ''Bearer token-1'') (JFields Undefined Undefined)) Map.empty)) = 400 \<and>
   fst (snd (handler env_on world_ok
               (post (Some ''Bearer token-1'') (JFields Undefined Undefined)) Map.empty)) = Map.empty"
  by (simp add: handler_def try_block_def post_def truthy_def world_ok_def insert_tasks_def)






text \<open>
  C5 (as amended). The handler normalises the whole content of the first choice, not
  its first line. A completion whose first line, lower-cased and trimmed, is one of
  the five labels yields that label when everything after the first line is
  whitespace.
\<close>

theorem label_from_whole_content:
  assumes "content c = Some raw"
    and "trim (toLowerCase (first_line raw)) \<in> set validLabels"
    and "\<forall>ch \<in> set (further_lines raw). is_space ch"
  shows "suggest c = Some (trim (toLowerCase (first_line raw)))"
  using assms(1,2) normalise_first_line [OF assms(3)]
  by (simp add: suggest_Some_iff)

theorem label_from_whole_content_witness:
  "suggest (Choice (Some ''Home\<newline> '')) = Some ''home''"
  using label_from_whole_content [of "Choice (Some ''Home\<newline> '')" "''Home\<newline> ''"]
  by (simp add: first_line_blank_rest validLabels_def is_space_def)

text \<open>
  C5 as stated fails: the first line of \<^verbatim>\<open>"work\nhome"\<close> normalises to the label
  \<^verbatim>\<open>"work"\<close>, yet no label is produced and the task is returned without one.
\<close>

theorem first_line_counterexample:
  "trim (toLowerCase (first_line (''work\<newline>home''))) = ''work'' \<and>
   ''work'' \<in> set validLabels \<and>
   suggest (Choice (Some (''work\<newline>home''))) = None \<and>
   body (fst (handler env_on
                (world_ok\<lparr>chat_completions_create :=
                            (\<lambda>p. Inr [Choice (Some (''work\<newline>home''))])\<rparr>)
                (post (Some ''Bearer token-1'') buy_milk) Map.empty)) = TaskJson milk_row"
proof -
  have "trim (toLowerCase (first_line (''work\<newline>home''))) = ''work''"
    by code_simp
  moreover have "''work'' \<in> set validLabels"
    by (simp add: validLabels_def)
  moreover have "body (fst (handler env_on
                (world_ok\<lparr>chat_completions_create :=
                            (\<lambda>p. Inr [Choice (Some (''work\<newline>home''))])\<rparr>)
                (post (Some ''Bearer token-1'') buy_milk) Map.empty)) = TaskJson milk_row"
    using suggest_two_lines
    by (simp add: handler_def try_block_def post_def buy_milk_def truthy_def world_ok_def
          insert_tasks_def Let_def enrich_def env_on_def ENABLE_OPENAI_def milk_row_def)
  ultimately show ?thesis
    using suggest_two_lines by simp
qed

text \<open>
  C6. The two authentication outcomes differ in the error text only. A rejected
  credential is answered with status 400 and "No user found", a missing one with
  status 400 and "No authorization header", and a rejected insert with status 400 as
  well: the handler has one status for every failure, and none of them is 401.
\<close>

theorem rejected_credential_status:
  "fst (handler env_on world_ok (post (Some ''Bearer expired'') buy_milk) Map.empty) =
     \<lparr> status = 400, body = ErrorJson ''No user found'' \<rparr> \<and>
   fst (handler env_on world_ok (post None buy_milk) Map.empty) =
     \<lparr> status = 400, body = ErrorJson ''No authorization header'' \<rparr> \<and>
   status (fst (handler env_on world_ok
                  (post (Some ''Bearer token-1'') (JFields Undefined Undefined)) Map.empty)) = 400"
  by (simp add: handler_def try_block_def post_def buy_milk_def truthy_def world_ok_def
        insert_tasks_def)

text \<open>
  C7 (as amended). The title is required but may be empty. When the title is absent
  or null, nothing is persisted and no task is returned; a request that is not a
  preflight is answered with status 400, and when it reaches a store without fault
  the error is the not-null violation of the \<open>title\<close> column.
\<close>

theorem title_is_required:
  assumes "req_json req = JFields t d"
    and "t = Undefined \<or> t = Null"
  shows "fst (snd (handler e w req db)) = db \<and>
         (\<forall>task. body (fst (handler e w req db)) \<noteq> TaskJson task) \<and>
         (req_method req \<noteq> ''OPTIONS'' \<longrightarrow> status (fst (handler e w req db)) = 400) \<and>
         (req_method req \<noteq> ''OPTIONS'' \<and> truthy (Authorization req) \<and>
          getUser w (the (Authorization req)) \<noteq> None \<and> insert_fault w = None \<longrightarrow>
            fst (try_block e w req db) =
              Inl (PostgrestError ''23502''
                     ''null in column title violates not-null constraint''))"
  using assms(1) insert_tasks_no_title [OF assms(2), of w db d False]
  by (auto simp: handler_def try_block_def split: option.splits)

theorem title_is_required_witness:
  "fst (snd (handler env_on world_ok
               (post (Some ''Bearer token-1'') (JFields Undefined Undefined)) Map.empty))
     = Map.empty \<and>
   status (fst (handler env_on world_ok
                  (post (Some ''Bearer token-1'') (JFields Undefined Undefined)) Map.empty))
     = 400 \<and>
   fst (try_block env_on world_ok
          (post (Some ''Bearer token-1'') (JFields Undefined Undefined)) Map.empty) =
     Inl (PostgrestError ''23502'' ''null in column title violates not-null constraint'')"
  using title_is_required
    [of "post (Some ''Bearer token-1'') (JFields Undefined Undefined)" Undefined Undefined
        env_on world_ok Map.empty]
  by (simp add: post_def truthy_def world_ok_def)

text \<open>
  C7 as stated fails for the empty string: the table accepts it, the row is
  persisted and returned with status 200.
\<close>

theorem empty_title_counterexample:
  "handler env_off world_ok (post (Some ''Bearer token-1'') (JFields (Str []) Undefined))
     Map.empty =
     (\<lparr> status = 200, body = TaskJson (milk_row\<lparr>title := []\<rparr>) \<rparr>,
      [''task-1'' \<mapsto> milk_row\<lparr>title := []\<rparr>],
      [Console Log, GetUser ''Bearer token-1'',
       Insert \<lparr> new_title = Str [], new_description = Undefined,
                new_completed = False, new_user_id = ''user-1'' \<rparr>])"
  by (simp add: handler_def try_block_def post_def truthy_def world_ok_def
        insert_tasks_def Let_def enrich_def env_off_def ENABLE_OPENAI_def milk_row_def)

text \<open>
  C8. With the variable \<^verbatim>\<open>ENABLE_OPENAI\<close> set to \<^verbatim>\<open>"false"\<close> the provider is never
  called, and either nothing was created or the created row is the task returned,
  with no label.
\<close>

theorem disabled_enrichment:
  assumes "ENABLE_OPENAI_var e = Some ''false''"
  shows "filter is_completion (snd (snd (handler e w req db))) = [] \<and>
         (fst (snd (handler e w req db)) = db \<or>
          (\<exists>task. body (fst (handler e w req db)) = TaskJson task \<and> label task = None \<and>
             db (task_id task) = None \<and>
             fst (snd (handler e w req db)) = db(task_id task \<mapsto> task))) \<and>
         (\<forall>task. body (fst (handler e w req db)) = TaskJson task \<longrightarrow> label task = None)"
proof -
  have off: "\<not> ENABLE_OPENAI e"
    using assms by (simp add: ENABLE_OPENAI_def)
  show ?thesis
    by (auto simp: handler_def try_block_def enrich_off [OF off]
             split: body_json.splits option.splits sum.splits prod.splits
             dest!: insert_tasks_Inr)
qed

theorem disabled_enrichment_witness:
  "filter is_completion
     (snd (snd (handler env_off world_ok (post (Some ''Bearer token-1'') buy_milk) Map.empty)))
     = [] \<and>
   body (fst (handler env_off world_ok (post (Some ''Bearer token-1'') buy_milk) Map.empty))
     = TaskJson milk_row \<and>
   label milk_row = None"
proof -
  have off: "ENABLE_OPENAI_var env_off = Some ''false''"
    by (simp add: env_off_def)
  from disabled_enrichment
    [OF off, of world_ok "post (Some ''Bearer token-1'') buy_milk" Map.empty]
  show ?thesis
    by (simp add: run_milk_off milk_row_def)
qed

text \<open>
  C9. The label update of a row created at time 100, run at time 200, sets the label
  and leaves \<open>updated_at\<close> at 100: the timestamp is not refreshed.
\<close>

theorem updateLabel_leaves_updated_at:
  "updateLabel (world_ok\<lparr>now := 200\<rparr>) [''task-1'' \<mapsto> milk_row] ''task-1'' ''work'' =
     Inr (milk_row\<lparr>label := Some ''work''\<rparr>, [''task-1'' \<mapsto> milk_row\<lparr>label := Some ''work''\<rparr>]) \<and>
   updated_at milk_row = Some 100 \<and>
   updated_at (milk_row\<lparr>label := Some ''work''\<rparr>) = Some 100 \<and>
   now (world_ok\<lparr>now := 200\<rparr>) = 200"
  by (simp add: updateLabel_def world_ok_def validLabels_def milk_row_def)

text \<open>
  C10 (as amended). The body is read before the credential is looked at, but after
  the preflight is answered. A request that is not an \<^verbatim>\<open>OPTIONS\<close> preflight and
  whose body is not JSON fails with the error of \<^verbatim>\<open>req.json()\<close>, writes nothing
  and logs only the failure, with or without a credential; and for such a request the
  missing-credential error is thrown only when the body was read.
\<close>

theorem body_is_read_before_the_credential:
  assumes "req_method req \<noteq> ''OPTIONS''"
  shows "(\<forall>m. req_json req = Malformed m \<longrightarrow>
            fst (try_block e w req db) = Inl (SyntaxError m) \<and>
            handler e w req db = (\<lparr> status = 400, body = ErrorJson m \<rparr>, db, [Console Err])) \<and>
         (fst (try_block e w req db) = Inl (Error ''No authorization header'') \<longrightarrow>
            (\<exists>t d. req_json req = JFields t d))"
  using assms
  by (cases "req_json req") (auto simp: handler_def try_block_def)

theorem body_is_read_before_the_credential_witness:
  "handler env_on world_ok (post None (Malformed ''Unexpected end of JSON input'')) Map.empty =
     (\<lparr> status = 400, body = ErrorJson ''Unexpected end of JSON input'' \<rparr>, Map.empty,
      [Console Err]) \<and>
   handler env_on world_ok
     (post (Some ''Bearer token-1'') (Malformed ''Unexpected end of JSON input'')) Map.empty =
     (\<lparr> status = 400, body = ErrorJson ''Unexpected end of JSON input'' \<rparr>, Map.empty,
      [Console Err]) \<and>
   fst (try_block env_on world_ok (post None buy_milk) Map.empty) =
     Inl (Error ''No authorization header'') \<and>
   req_json (post None buy_milk) = JFields (Str ''Buy milk'') Undefined"
  using body_is_read_before_the_credential
      [of "post None (Malformed ''Unexpected end of JSON input'')" env_on world_ok Map.empty]
    body_is_read_before_the_credential
      [of "post (Some ''Bearer token-1'') (Malformed ''Unexpected end of JSON input'')"
          env_on world_ok Map.empty]
    body_is_read_before_the_credential [of "post None buy_milk" env_on world_ok Map.empty]
  by (simp add: post_def buy_milk_def try_block_def truthy_def)

text \<open>
  C10 as stated fails on a preflight: lines 21-23 answer an \<^verbatim>\<open>OPTIONS\<close> request with
  status 204 before the body is read, so a body that is not JSON causes no parse
  error there.
\<close>

theorem preflight_malformed_body_counterexample:
  "req_json \<lparr> req_method = ''OPTIONS'', Authorization = None,
              req_json = Malformed ''Unexpected end of JSON input'' \<rparr> =
     Malformed ''Unexpected end of JSON input'' \<and>
   handler env_on world_ok
     \<lparr> req_method = ''OPTIONS'', Authorization = None,
       req_json = Malformed ''Unexpected end of JSON input'' \<rparr> Map.empty =
     (\<lparr> status = 204, body = NoContent \<rparr>, Map.empty, [])"
  by (simp add: handler_def)

end
